theory Spec2Isabelle
  imports Complex_Main
begin

section \<open>Numbers\<close>

text \<open>
  The program is TypeScript; every quantity is a \<^verbatim>\<open>number\<close>. The embedding reads
  the arithmetic of the source over \<^typ>\<open>real\<close>: \<^verbatim>\<open>+ - * /\<close> are the field
  operations, \<^verbatim>\<open>Math.sqrt\<close> is \<^const>\<open>sqrt\<close>, \<^verbatim>\<open>Math.exp\<close> is \<^const>\<open>exp\<close>,
  \<^verbatim>\<open>Math.abs\<close> is \<^const>\<open>abs\<close>. Rounding of IEEE doubles, infinities and NaN are outside
  the model; every theorem below is a statement about the formulas the code evaluates.
\<close>

section \<open>Linear stack-up (src/types.ts)\<close>

subsection \<open>Data model\<close>

datatype DimensionType = INCREASING | DECREASING

record Dimension =
  ident :: string
  name :: string
  nominal :: real
  tolerancePlus :: real
  toleranceMinus :: real
  type :: DimensionType
  description :: "string option"

record StackupResult =
  nominalGap :: real
  worstCaseMin :: real
  worstCaseMax :: real
  rssMin :: real
  rssMax :: real
  contributors :: nat
  interferenceProb :: real

subsection \<open>The \<^verbatim>\<open>results\<close> computation\<close>

text \<open>
  The running sums that the \<^verbatim>\<open>forEach\<close> loop of \<^verbatim>\<open>results\<close> mutates, as one record,
  all starting at zero.
\<close>

record Sums =
  rssSumSquares :: real
  sumIncNom :: real
  sumDecNom :: real
  sumIncMax :: real
  sumIncMin :: real
  sumDecMax :: real
  sumDecMin :: real

definition sums0 :: Sums where
  "sums0 = \<lparr>rssSumSquares = 0, sumIncNom = 0, sumDecNom = 0, sumIncMax = 0,
            sumIncMin = 0, sumDecMax = 0, sumDecMin = 0\<rparr>"

text \<open>One iteration of \<^verbatim>\<open>dimensions.forEach(d => ...)\<close>.\<close>

definition forEach_body :: "Sums \<Rightarrow> Dimension \<Rightarrow> Sums" where
  "forEach_body s d =
     (let s1 = (if type d = INCREASING
                then s\<lparr>sumIncNom := sumIncNom s + Dimension.nominal d,
                       sumIncMax := sumIncMax s + (Dimension.nominal d + tolerancePlus d),
                       sumIncMin := sumIncMin s + (Dimension.nominal d - toleranceMinus d)\<rparr>
                else s\<lparr>sumDecNom := sumDecNom s + Dimension.nominal d,
                       sumDecMax := sumDecMax s + (Dimension.nominal d + tolerancePlus d),
                       sumDecMin := sumDecMin s + (Dimension.nominal d - toleranceMinus d)\<rparr>);
          avgTol = (tolerancePlus d + toleranceMinus d) / 2
      in s1\<lparr>rssSumSquares := rssSumSquares s1 + avgTol ^ 2\<rparr>)"

text \<open>
  \<^verbatim>\<open>rssTol = Math.sqrt(dimensions.reduce((acc, d) => { t = (plus + minus)/2; return acc + t*t }, 0))\<close>
\<close>

definition rssTol :: "Dimension list \<Rightarrow> real" where
  "rssTol dimensions =
     sqrt (foldl (\<lambda>acc d. let t = (tolerancePlus d + toleranceMinus d) / 2 in acc + t * t)
                 0 dimensions)"

text \<open>
  The body of \<^verbatim>\<open>if (sigma > 0) { ... prob = p * 100 }\<close>: the rational-polynomial
  approximation of the normal tail at \<open>zScore\<close>, as a percentage.
\<close>

definition normalTail :: "real \<Rightarrow> real" where
  "normalTail zScore =
     (let t = 1 / (1 + 0.2316419 * \<bar>zScore\<bar>);
          d = 0.3989423 * exp (- zScore * zScore / 2);
          p = d * t * (0.3193815 + t * (- 0.3565638 + t * (1.781478 + t * (- 1.821256 + t * 1.330274))));
          p' = (if zScore > 0 then 1 - p else p)
      in p' * 100)"

text \<open>
  \<^verbatim>\<open>zScore = (0 - nominalGap) / (sigma || 0.001)\<close>: the right operand of \<^verbatim>\<open>||\<close> is
  taken exactly when \<open>sigma\<close> is zero.
\<close>

definition zScore :: "real \<Rightarrow> real \<Rightarrow> real" where
  "zScore gap sigma = (0 - gap) / (if sigma = 0 then 0.001 else sigma)"

text \<open>
  The whole \<^verbatim>\<open>useMemo\<close> callback (the spec's \<open>computeStackup\<close>). \<open>s\<close> is the state
  of the running sums after the loop, \<open>rss\<close> and \<open>z\<close> are the locals \<^verbatim>\<open>rssTol\<close> and
  \<^verbatim>\<open>zScore\<close>. \<^verbatim>\<open>prob\<close> starts at \<open>0\<close> and is assigned only under \<^verbatim>\<open>sigma > 0\<close>.
\<close>

definition results :: "Dimension list \<Rightarrow> StackupResult" where
  "results dimensions =
     (let s = foldl forEach_body sums0 dimensions;
          nominalGap = sumIncNom s - sumDecNom s;
          wcMax = sumIncMax s - sumDecMin s;
          wcMin = sumIncMin s - sumDecMax s;
          rss = rssTol dimensions;
          sigma = rss / 3;
          z = zScore nominalGap sigma;
          prob = (if sigma > 0 then normalTail z else 0)
      in \<lparr>nominalGap = nominalGap, worstCaseMin = wcMin, worstCaseMax = wcMax,
          rssMin = nominalGap - rss, rssMax = nominalGap + rss,
          contributors = length dimensions, interferenceProb = prob\<rparr>)"

text \<open>The list the application starts with (\<^verbatim>\<open>INITIAL_DIMENSIONS\<close>).\<close>

definition INITIAL_DIMENSIONS :: "Dimension list" where
  "INITIAL_DIMENSIONS =
     [\<lparr>ident = ''1'', name = ''Housing Cavity Depth'', Dimension.nominal = 20.00,
       tolerancePlus = 0.2, toleranceMinus = 0.2, type = INCREASING,
       description = Some ''Main enclosure depth''\<rparr>,
      \<lparr>ident = ''2'', name = ''PCB Thickness'', Dimension.nominal = 1.60,
       tolerancePlus = 0.1, toleranceMinus = 0.1, type = DECREASING,
       description = Some ''FR4 Board''\<rparr>,
      \<lparr>ident = ''3'', name = ''Standoff Height'', Dimension.nominal = 5.00,
       tolerancePlus = 0.05, toleranceMinus = 0.05, type = DECREASING,
       description = Some ''Metal standoff''\<rparr>,
      \<lparr>ident = ''4'', name = ''Battery Thickness'', Dimension.nominal = 12.50,
       tolerancePlus = 0.3, toleranceMinus = 0.1, type = DECREASING,
       description = Some ''LiPo Pouch cell''\<rparr>]"

subsection \<open>The reference definition of the specification\<close>

text \<open>
  The sums of section 4.1 of the specification, written as it words them: the list
  is partitioned by direction and each part is summed.
\<close>

definition increasing :: "Dimension list \<Rightarrow> Dimension list" where
  "increasing ds = filter (\<lambda>d. type d = INCREASING) ds"

definition decreasing :: "Dimension list \<Rightarrow> Dimension list" where
  "decreasing ds = filter (\<lambda>d. type d = DECREASING) ds"

definition spec_nominalGap :: "Dimension list \<Rightarrow> real" where
  "spec_nominalGap ds =
     (\<Sum>d\<leftarrow>increasing ds. Dimension.nominal d) - (\<Sum>d\<leftarrow>decreasing ds. Dimension.nominal d)"

definition spec_worstCaseMax :: "Dimension list \<Rightarrow> real" where
  "spec_worstCaseMax ds =
     (\<Sum>d\<leftarrow>increasing ds. Dimension.nominal d + tolerancePlus d)
       - (\<Sum>d\<leftarrow>decreasing ds. Dimension.nominal d - toleranceMinus d)"

definition spec_worstCaseMin :: "Dimension list \<Rightarrow> real" where
  "spec_worstCaseMin ds =
     (\<Sum>d\<leftarrow>increasing ds. Dimension.nominal d - toleranceMinus d)
       - (\<Sum>d\<leftarrow>decreasing ds. Dimension.nominal d + tolerancePlus d)"

definition spec_rssTolerance :: "Dimension list \<Rightarrow> real" where
  "spec_rssTolerance ds = sqrt (\<Sum>d\<leftarrow>ds. ((tolerancePlus d + toleranceMinus d) / 2) ^ 2)"

section \<open>Hole fit (the \<^verbatim>\<open>HoleFitCalculator\<close> component)\<close>

subsection \<open>Data model\<close>

datatype AssemblyType = FLOATING | FIXED

datatype Unit = MM | INCH

record PartDimension =
  nominal :: real
  tolPlus :: real
  tolMinus :: real
  tpSpec :: real

text \<open>The misalignment state \<^verbatim>\<open>{ x, y }\<close>.\<close>

record Deviation =
  dev_x :: real
  dev_y :: real

datatype Status = SAFE | RISK | FAIL

subsection \<open>\<^verbatim>\<open>toFixed\<close> and \<^verbatim>\<open>parseFloat\<close>\<close>

text \<open>
  \<^verbatim>\<open>x.toFixed(f)\<close> yields a decimal string: a minus sign when \<open>x < 0\<close>, then the digits
  of the integer \<open>n\<close> for which \<open>n / 10^f\<close> is closest to \<open>\<bar>x\<bar>\<close> (the larger \<open>n\<close> on a
  tie), with the point before the last \<open>f\<close> digits. The string is represented by its
  sign, \<open>n\<close> and \<open>f\<close>; \<^verbatim>\<open>parseFloat\<close> reads the number back. (Magnitudes of
  \<open>10^21\<close> and more, which \<^verbatim>\<open>toFixed\<close> prints in exponent form, are not modelled.)
\<close>

datatype decimal = Decimal bool nat nat

definition toFixed :: "real \<Rightarrow> nat \<Rightarrow> decimal" where
  "toFixed x f =
     (let neg = x < 0;
          a = (if neg then - x else x);
          n = nat \<lfloor>a * 10 ^ f + 1 / 2\<rfloor>
      in Decimal neg n f)"

fun parseFloat :: "decimal \<Rightarrow> real" where
  "parseFloat (Decimal neg n f) = (if neg then - (real n / 10 ^ f) else real n / 10 ^ f)"

subsection \<open>The \<^verbatim>\<open>analysis\<close> computation\<close>

text \<open>
  The templated \<^verbatim>\<open>recommendation\<close> text, by its template and the values
  interpolated into it: the floating-fastener text carries
  \<^verbatim>\<open>limitingClearance.toFixed(4)\<close>, \<^verbatim>\<open>Math.max(hole1.tpSpec, hole2.tpSpec).toFixed(4)\<close> and
  the unit; the fixed-fastener text carries \<^verbatim>\<open>(totalBudget/2).toFixed(4)\<close> and the unit.
\<close>

datatype Recommendation =
  FloatingText decimal decimal Unit
  | FixedText decimal Unit

record Analysis =
  pinMMC :: real
  h1MMC :: real
  maxAllowableTP :: real
  status :: Status
  recommendation :: Recommendation
  actualTP :: real
  isSimulationInterference :: bool
  radialClearance :: real
  actualOffset :: real

text \<open>
  The whole \<^verbatim>\<open>useMemo\<close> callback (the spec's \<open>computeFit\<close>); the arguments are its
  dependencies \<^verbatim>\<open>[mode, pin, hole1, hole2, deviation, unit]\<close>. The
  \<^verbatim>\<open>if (mode === 'FLOATING') ... else ...\<close> statement assigns \<^verbatim>\<open>maxAllowableTP\<close>,
  \<^verbatim>\<open>status\<close> (initially \<^verbatim>\<open>'SAFE'\<close>) and \<^verbatim>\<open>recommendation\<close>; it is the triple bound
  below. (\<^verbatim>\<open>clearance\<close>, which it assigns too, is never read.)
\<close>

definition analysis :: "AssemblyType \<Rightarrow> PartDimension \<Rightarrow> PartDimension \<Rightarrow> PartDimension
    \<Rightarrow> Deviation \<Rightarrow> Unit \<Rightarrow> Analysis" where
  "analysis mode pin hole1 hole2 deviation unit =
     (let pinMMC = nominal pin + tolPlus pin;
          h1MMC = nominal hole1 - tolMinus hole1;
          h2MMC = nominal hole2 - tolMinus hole2;
          actualOffset = sqrt (dev_x deviation ^ 2 + dev_y deviation ^ 2);
          actualTP = 2 * actualOffset;
          (maxAllowableTP, status, recommendation) =
            (if mode = FLOATING then
               (let clearance1 = h1MMC - pinMMC;
                    clearance2 = h2MMC - pinMMC;
                    limitingClearance = min clearance1 clearance2
                in (limitingClearance,
                    (if tpSpec hole1 > clearance1 \<or> tpSpec hole2 > clearance2
                     then FAIL else SAFE),
                    FloatingText (toFixed limitingClearance 4)
                      (toFixed (max (tpSpec hole1) (tpSpec hole2)) 4) unit))
             else
               (let totalBudget = h1MMC - pinMMC;
                    combinedSpec = tpSpec hole1 + tpSpec hole2
                in (totalBudget / 2,
                    (if combinedSpec > totalBudget then FAIL else SAFE),
                    FixedText (toFixed (totalBudget / 2) 4) unit)));
          radialClearance = (h1MMC - pinMMC) / 2;
          isSimulationInterference = actualOffset > radialClearance
      in \<lparr>pinMMC = pinMMC, h1MMC = h1MMC, maxAllowableTP = maxAllowableTP, status = status,
          recommendation = recommendation, actualTP = actualTP,
          isSimulationInterference = isSimulationInterference,
          radialClearance = radialClearance, actualOffset = actualOffset\<rparr>)"

subsection \<open>Unit toggle\<close>

text \<open>
  \<^verbatim>\<open>cvt\<close> of \<^verbatim>\<open>handleToggleUnit\<close>, with the target unit \<^verbatim>\<open>newUnit\<close> it closes over
  as a parameter.
\<close>

definition cvt :: "Unit \<Rightarrow> real \<Rightarrow> real" where
  "cvt newUnit val =
     (let factor = (if newUnit = MM then 25.4 else 1 / 25.4);
          precision = (if newUnit = MM then 3 else 4)
      in parseFloat (toFixed (val * factor) precision))"

definition cvtPart :: "Unit \<Rightarrow> PartDimension \<Rightarrow> PartDimension" where
  "cvtPart newUnit p =
     \<lparr>nominal = cvt newUnit (nominal p), tolPlus = cvt newUnit (tolPlus p),
      tolMinus = cvt newUnit (tolMinus p), tpSpec = cvt newUnit (tpSpec p)\<rparr>"

text \<open>The component's state, and \<^verbatim>\<open>handleToggleUnit\<close> as a function on it.\<close>

record HoleState =
  unit :: Unit
  mode :: AssemblyType
  pin :: PartDimension
  hole1 :: PartDimension
  hole2 :: PartDimension
  deviation :: Deviation

definition handleToggleUnit :: "HoleState \<Rightarrow> HoleState" where
  "handleToggleUnit s =
     (let newUnit = (if unit s = MM then INCH else MM)
      in s\<lparr>pin := cvtPart newUnit (pin s),
           hole1 := cvtPart newUnit (hole1 s),
           hole2 := cvtPart newUnit (hole2 s),
           deviation := \<lparr>dev_x = cvt newUnit (dev_x (deviation s)),
                          dev_y = cvt newUnit (dev_y (deviation s))\<rparr>,
           unit := newUnit\<rparr>)"

text \<open>The state \<^verbatim>\<open>analysis\<close> is computed from.\<close>

definition analysis_of :: "HoleState \<Rightarrow> Analysis" where
  "analysis_of s = analysis (mode s) (pin s) (hole1 s) (hole2 s) (deviation s) (unit s)"

text \<open>The two metric entries of \<^verbatim>\<open>HOLE_SCENARIOS\<close>, loaded by \<^verbatim>\<open>handleLoadScenario\<close>.\<close>

definition m6_float :: HoleState where
  "m6_float =
     \<lparr>unit = MM, mode = FLOATING,
      pin = \<lparr>nominal = 6.00, tolPlus = 0.00, tolMinus = 0.10, tpSpec = 0\<rparr>,
      hole1 = \<lparr>nominal = 6.60, tolPlus = 0.20, tolMinus = 0.00, tpSpec = 0.50\<rparr>,
      hole2 = \<lparr>nominal = 6.60, tolPlus = 0.20, tolMinus = 0.00, tpSpec = 0.50\<rparr>,
      deviation = \<lparr>dev_x = 0, dev_y = 0\<rparr>\<rparr>"

definition m8_fixed :: HoleState where
  "m8_fixed =
     \<lparr>unit = MM, mode = FIXED,
      pin = \<lparr>nominal = 8.00, tolPlus = 0.00, tolMinus = 0.15, tpSpec = 0\<rparr>,
      hole1 = \<lparr>nominal = 9.00, tolPlus = 0.25, tolMinus = 0.00, tpSpec = 0.40\<rparr>,
      hole2 = \<lparr>nominal = 8.00, tolPlus = 0.00, tolMinus = 0.00, tpSpec = 0.40\<rparr>,
      deviation = \<lparr>dev_x = 0, dev_y = 0\<rparr>\<rparr>"

subsection \<open>Rounding to decimal places, as the specification words it\<close>

text \<open>
  Rounding \<open>x\<close> to \<open>k\<close> decimal places: the nearest multiple of \<open>10^-k\<close>, a tie going
  away from zero (\<^const>\<open>round\<close> is the nearest integer, a tie going up).
\<close>

definition round_places :: "nat \<Rightarrow> real \<Rightarrow> real" where
  "round_places k x = sgn x * of_int (round (\<bar>x\<bar> * 10 ^ k)) / 10 ^ k"

section \<open>Properties of the linear stack-up\<close>

subsection \<open>The loop computes the partitioned sums\<close>

lemma not_INCREASING: "(t \<noteq> INCREASING) = (t = DECREASING)"
  by (cases t) simp_all

lemma foldl_sumIncNom:
  "sumIncNom (foldl forEach_body s ds) = sumIncNom s + (\<Sum>d\<leftarrow>increasing ds. Dimension.nominal d)"
  by (induction ds arbitrary: s) (simp_all add: forEach_body_def increasing_def Let_def)

lemma foldl_sumIncMax:
  "sumIncMax (foldl forEach_body s ds) =
     sumIncMax s + (\<Sum>d\<leftarrow>increasing ds. Dimension.nominal d + tolerancePlus d)"
  by (induction ds arbitrary: s) (simp_all add: forEach_body_def increasing_def Let_def)

lemma foldl_sumIncMin:
  "sumIncMin (foldl forEach_body s ds) =
     sumIncMin s + (\<Sum>d\<leftarrow>increasing ds. Dimension.nominal d - toleranceMinus d)"
  by (induction ds arbitrary: s) (simp_all add: forEach_body_def increasing_def Let_def)

lemma foldl_sumDecNom:
  "sumDecNom (foldl forEach_body s ds) = sumDecNom s + (\<Sum>d\<leftarrow>decreasing ds. Dimension.nominal d)"
  by (induction ds arbitrary: s)
     (simp_all add: forEach_body_def decreasing_def Let_def not_INCREASING [symmetric])

lemma foldl_sumDecMax:
  "sumDecMax (foldl forEach_body s ds) =
     sumDecMax s + (\<Sum>d\<leftarrow>decreasing ds. Dimension.nominal d + tolerancePlus d)"
  by (induction ds arbitrary: s)
     (simp_all add: forEach_body_def decreasing_def Let_def not_INCREASING [symmetric])

lemma foldl_sumDecMin:
  "sumDecMin (foldl forEach_body s ds) =
     sumDecMin s + (\<Sum>d\<leftarrow>decreasing ds. Dimension.nominal d - toleranceMinus d)"
  by (induction ds arbitrary: s)
     (simp_all add: forEach_body_def decreasing_def Let_def not_INCREASING [symmetric])

lemma foldl_squares:
  "foldl (\<lambda>acc d. let t = (tolerancePlus d + toleranceMinus d) / 2 in acc + t * t) a ds =
     a + (\<Sum>d\<leftarrow>ds. ((tolerancePlus d + toleranceMinus d) / 2) ^ 2)"
  by (induction ds arbitrary: a) (simp_all add: Let_def power2_eq_square)

lemma rssTol_spec: "rssTol ds = spec_rssTolerance ds"
  unfolding rssTol_def spec_rssTolerance_def foldl_squares by simp

lemma results_nominalGap: "nominalGap (results ds) = spec_nominalGap ds"
  by (simp add: results_def Let_def spec_nominalGap_def foldl_sumIncNom foldl_sumDecNom sums0_def)

lemma results_worstCaseMax: "worstCaseMax (results ds) = spec_worstCaseMax ds"
  by (simp add: results_def Let_def spec_worstCaseMax_def foldl_sumIncMax foldl_sumDecMin sums0_def)

lemma results_worstCaseMin: "worstCaseMin (results ds) = spec_worstCaseMin ds"
  by (simp add: results_def Let_def spec_worstCaseMin_def foldl_sumIncMin foldl_sumDecMax sums0_def)

lemma results_rssMin: "rssMin (results ds) = spec_nominalGap ds - spec_rssTolerance ds"
  by (simp add: results_def Let_def spec_nominalGap_def foldl_sumIncNom foldl_sumDecNom sums0_def
      rssTol_spec)

lemma results_rssMax: "rssMax (results ds) = spec_nominalGap ds + spec_rssTolerance ds"
  by (simp add: results_def Let_def spec_nominalGap_def foldl_sumIncNom foldl_sumDecNom sums0_def
      rssTol_spec)

lemma results_contributors: "contributors (results ds) = length ds"
  by (simp add: results_def Let_def)

subsection \<open>The four-dimension scenario\<close>

lemma initial_nominalGap: "spec_nominalGap INITIAL_DIMENSIONS = 0.9"
  by (simp add: spec_nominalGap_def increasing_def decreasing_def INITIAL_DIMENSIONS_def)

lemma initial_worstCaseMax: "spec_worstCaseMax INITIAL_DIMENSIONS = 1.35"
  by (simp add: spec_worstCaseMax_def increasing_def decreasing_def INITIAL_DIMENSIONS_def)

lemma initial_worstCaseMin: "spec_worstCaseMin INITIAL_DIMENSIONS = 0.25"
  by (simp add: spec_worstCaseMin_def increasing_def decreasing_def INITIAL_DIMENSIONS_def)

lemma initial_rss_squares: "spec_rssTolerance INITIAL_DIMENSIONS = sqrt 0.0925"
  by (simp add: spec_rssTolerance_def INITIAL_DIMENSIONS_def power2_eq_square)

lemma sqrt_between:
  fixes a b x :: real
  assumes "0 \<le> a" "a ^ 2 < x" "x < b ^ 2" "0 \<le> b"
  shows "a < sqrt x \<and> sqrt x < b"
proof
  from assms(2) show "a < sqrt x"
    by (rule real_less_rsqrt)
  have "sqrt x < sqrt (b ^ 2)"
    using assms(3) by (simp only: real_sqrt_less_iff)
  with assms(4) show "sqrt x < b"
    by simp
qed

lemma initial_rssTolerance:
  "0.304135 < spec_rssTolerance INITIAL_DIMENSIONS \<and> spec_rssTolerance INITIAL_DIMENSIONS < 0.304145"
  unfolding initial_rss_squares
  by (rule sqrt_between) (simp_all add: power2_eq_square)

text \<open>
  Claim C1. For every list of dimensions the result of \<open>results\<close> (the spec's
  \<open>computeStackup\<close>) is the reference definition: the nominal gap is the sum of the
  increasing nominals minus the sum of the decreasing ones, the worst-case maximum is
  the sum of (nominal + plus) over the increasing dimensions minus the sum of
  (nominal - minus) over the decreasing ones, the worst-case minimum the other way
  round, the RSS tolerance is the square root of the sum over all dimensions of the
  squared mean tolerance, the RSS band is the nominal gap minus and plus that
  tolerance, and the contributor count is the length of the list. On the
  four-dimension scenario the nominal gap is 0.9, the worst-case maximum 1.35, the
  worst-case minimum 0.25, and the RSS tolerance is 0.30414 to five decimal places.
\<close>

theorem C1_results_reference:
  "nominalGap (results ds) = spec_nominalGap ds
   \<and> worstCaseMax (results ds) = spec_worstCaseMax ds
   \<and> worstCaseMin (results ds) = spec_worstCaseMin ds
   \<and> rssTol ds = spec_rssTolerance ds
   \<and> rssMin (results ds) = spec_nominalGap ds - spec_rssTolerance ds
   \<and> rssMax (results ds) = spec_nominalGap ds + spec_rssTolerance ds
   \<and> contributors (results ds) = length ds
   \<and> nominalGap (results INITIAL_DIMENSIONS) = 0.9
   \<and> worstCaseMax (results INITIAL_DIMENSIONS) = 1.35
   \<and> worstCaseMin (results INITIAL_DIMENSIONS) = 0.25
   \<and> \<bar>rssTol INITIAL_DIMENSIONS - 0.30414\<bar> < 0.000005"
proof -
  have "\<bar>rssTol INITIAL_DIMENSIONS - 0.30414\<bar> < 0.000005"
    unfolding rssTol_spec abs_less_iff using initial_rssTolerance by simp
  then show ?thesis
    by (simp only: results_nominalGap results_worstCaseMax results_worstCaseMin rssTol_spec
        results_rssMin results_rssMax results_contributors initial_nominalGap
        initial_worstCaseMax initial_worstCaseMin simp_thms)
qed

subsection \<open>Bands around the nominal gap\<close>

lemma sum_list_partition:
  fixes f :: "Dimension \<Rightarrow> real"
  shows "(\<Sum>d\<leftarrow>increasing ds. f d) + (\<Sum>d\<leftarrow>decreasing ds. f d) = (\<Sum>d\<leftarrow>ds. f d)"
  by (induction ds) (simp_all add: increasing_def decreasing_def not_INCREASING [symmetric])

lemma worstCaseMax_above:
  "worstCaseMax (results ds) - nominalGap (results ds) =
     (\<Sum>d\<leftarrow>increasing ds. tolerancePlus d) + (\<Sum>d\<leftarrow>decreasing ds. toleranceMinus d)"
  by (simp add: results_worstCaseMax results_nominalGap spec_worstCaseMax_def spec_nominalGap_def
      sum_list_addf sum_list_subtractf)

lemma worstCaseMin_below:
  "nominalGap (results ds) - worstCaseMin (results ds) =
     (\<Sum>d\<leftarrow>increasing ds. toleranceMinus d) + (\<Sum>d\<leftarrow>decreasing ds. tolerancePlus d)"
  by (simp add: results_worstCaseMin results_nominalGap spec_worstCaseMin_def spec_nominalGap_def
      sum_list_addf sum_list_subtractf)

lemma rssTol_nonneg: "0 \<le> rssTol ds"
  by (auto simp: rssTol_spec spec_rssTolerance_def intro!: sum_list_nonneg)

lemma results_rss_band:
  "rssMin (results ds) = nominalGap (results ds) - rssTol ds"
  "rssMax (results ds) = nominalGap (results ds) + rssTol ds"
  by (simp_all add: results_rssMin results_rssMax results_nominalGap rssTol_spec)

lemma results_interferenceProb:
  "interferenceProb (results ds) =
     (if rssTol ds / 3 > 0 then normalTail (zScore (nominalGap (results ds)) (rssTol ds / 3)) else 0)"
  by (simp add: results_def Let_def)

lemma sum_list_filter_nonneg:
  fixes f :: "Dimension \<Rightarrow> real"
  assumes "\<forall>d\<in>set ds. 0 \<le> f d"
  shows "0 \<le> (\<Sum>d\<leftarrow>filter P ds. f d)"
  by (rule sum_list_nonneg) (use assms in auto)

subsection \<open>The probability when the combined tolerance is zero\<close>

text \<open>
  Claim C2, as amended. Whenever the RSS tolerance is exactly zero (the empty list is
  such an input), the z-score is computed with sigma replaced by the epsilon 0.001,
  and the interference probability of the result is the literal 0 that \<^verbatim>\<open>prob\<close>
  starts with: the normal-tail formula is evaluated only under \<^verbatim>\<open>sigma > 0\<close>.
\<close>

theorem C2_zero_sigma:
  "rssTol ds = 0 \<Longrightarrow>
     zScore (nominalGap (results ds)) (rssTol ds / 3) = (0 - nominalGap (results ds)) / 0.001
     \<and> interferenceProb (results ds) = 0"
  by (simp add: results_interferenceProb zScore_def)

theorem C2_zero_sigma_witness:
  "rssTol [] = 0
   \<and> zScore (nominalGap (results [])) (rssTol [] / 3) = (0 - nominalGap (results [])) / 0.001
   \<and> interferenceProb (results []) = 0"
proof -
  have z: "rssTol [] = 0" by (simp add: rssTol_def)
  from z C2_zero_sigma [OF z] show ?thesis by simp
qed

text \<open>
  The claim as the specification states it fails on the empty list: the RSS tolerance
  is zero, the result carries probability 0, and the tail formula at the
  epsilon-guarded z-score is not 0 (it is close to 50).
\<close>

theorem C2_epsilon_formula_counterexample:
  "rssTol [] = 0
   \<and> interferenceProb (results []) \<noteq> normalTail ((0 - nominalGap (results [])) / 0.001)"
  by (simp add: rssTol_def results_def Let_def sums0_def zScore_def normalTail_def)

subsection \<open>Gap decomposition\<close>

text \<open>
  Claim C3, as amended. For every list of dimensions whose tolerance magnitudes are
  all non-negative, the worst-case band contains the nominal gap:
  \<open>worstCaseMin \<le> nominalGap \<le> worstCaseMax\<close>. For every list of dimensions, whatever
  the signs of nominals and tolerances, the RSS band contains it:
  \<open>rssMin \<le> nominalGap \<le> rssMax\<close>.
\<close>

theorem C3_gap_decomposition:
  "((\<forall>d\<in>set ds. 0 \<le> tolerancePlus d \<and> 0 \<le> toleranceMinus d) \<longrightarrow>
      worstCaseMin (results ds) \<le> nominalGap (results ds)
      \<and> nominalGap (results ds) \<le> worstCaseMax (results ds))
   \<and> rssMin (results ds) \<le> nominalGap (results ds)
   \<and> nominalGap (results ds) \<le> rssMax (results ds)"
proof (intro conjI impI)
  assume tol: "\<forall>d\<in>set ds. 0 \<le> tolerancePlus d \<and> 0 \<le> toleranceMinus d"
  have "0 \<le> nominalGap (results ds) - worstCaseMin (results ds)"
    unfolding worstCaseMin_below increasing_def decreasing_def
    using tol by (intro add_nonneg_nonneg sum_list_filter_nonneg) simp_all
  then show "worstCaseMin (results ds) \<le> nominalGap (results ds)" by simp
  have "0 \<le> worstCaseMax (results ds) - nominalGap (results ds)"
    unfolding worstCaseMax_above increasing_def decreasing_def
    using tol by (intro add_nonneg_nonneg sum_list_filter_nonneg) simp_all
  then show "nominalGap (results ds) \<le> worstCaseMax (results ds)" by simp
next
  show "rssMin (results ds) \<le> nominalGap (results ds)"
    using rssTol_nonneg [of ds] by (simp add: results_rss_band)
  show "nominalGap (results ds) \<le> rssMax (results ds)"
    using rssTol_nonneg [of ds] by (simp add: results_rss_band)
qed

theorem C3_gap_decomposition_witness:
  "list_all (\<lambda>d. 0 \<le> tolerancePlus d \<and> 0 \<le> toleranceMinus d) INITIAL_DIMENSIONS
   \<and> worstCaseMin (results INITIAL_DIMENSIONS) \<le> nominalGap (results INITIAL_DIMENSIONS)
   \<and> nominalGap (results INITIAL_DIMENSIONS) \<le> worstCaseMax (results INITIAL_DIMENSIONS)
   \<and> rssMin (results INITIAL_DIMENSIONS) \<le> nominalGap (results INITIAL_DIMENSIONS)
   \<and> nominalGap (results INITIAL_DIMENSIONS) \<le> rssMax (results INITIAL_DIMENSIONS)"
proof -
  have tol: "list_all (\<lambda>d. 0 \<le> tolerancePlus d \<and> 0 \<le> toleranceMinus d) INITIAL_DIMENSIONS"
    by (simp add: INITIAL_DIMENSIONS_def)
  then have "\<forall>d\<in>set INITIAL_DIMENSIONS. 0 \<le> tolerancePlus d \<and> 0 \<le> toleranceMinus d"
    by (simp only: list_all_iff)
  with C3_gap_decomposition [of INITIAL_DIMENSIONS] tol show ?thesis
    by blast
qed

text \<open>
  The claim as the specification states it, for every input, fails: one increasing
  dimension of nominal 10 with \<^verbatim>\<open>tolerancePlus = -1\<close> has nominal gap 10 and worst-case
  maximum 9.
\<close>

theorem C3_negative_tolerance_counterexample:
  "\<not> (nominalGap (results [\<lparr>ident = ''1'', name = ''Housing'', Dimension.nominal = 10,
          tolerancePlus = - 1, toleranceMinus = 0, type = INCREASING, description = None\<rparr>])
       \<le> worstCaseMax (results [\<lparr>ident = ''1'', name = ''Housing'', Dimension.nominal = 10,
          tolerancePlus = - 1, toleranceMinus = 0, type = INCREASING, description = None\<rparr>]))"
  by (simp add: results_def Let_def forEach_body_def sums0_def)

subsection \<open>Monotonicity in a single tolerance\<close>

lemma results_width:
  "worstCaseMax (results ds) - worstCaseMin (results ds) =
     (\<Sum>d\<leftarrow>ds. tolerancePlus d + toleranceMinus d)"
proof -
  have "worstCaseMax (results ds) - worstCaseMin (results ds) =
      (worstCaseMax (results ds) - nominalGap (results ds))
      + (nominalGap (results ds) - worstCaseMin (results ds))"
    by simp
  also have "\<dots> = ((\<Sum>d\<leftarrow>increasing ds. tolerancePlus d) + (\<Sum>d\<leftarrow>decreasing ds. tolerancePlus d))
      + ((\<Sum>d\<leftarrow>increasing ds. toleranceMinus d) + (\<Sum>d\<leftarrow>decreasing ds. toleranceMinus d))"
    unfolding worstCaseMax_above worstCaseMin_below by simp
  also have "\<dots> = (\<Sum>d\<leftarrow>ds. tolerancePlus d + toleranceMinus d)"
    unfolding sum_list_partition by (simp add: sum_list_addf)
  finally show ?thesis .
qed

lemma sum_list_map_update:
  fixes f :: "'a \<Rightarrow> real"
  shows "i < length xs \<Longrightarrow> (\<Sum>x\<leftarrow>xs[i := y]. f x) = (\<Sum>x\<leftarrow>xs. f x) - f (xs ! i) + f y"
proof (induction xs arbitrary: i)
  case Nil
  then show ?case by simp
next
  case (Cons a xs)
  then show ?case by (cases i) simp_all
qed

lemma square_mono_nonneg:
  fixes a b :: real
  assumes "0 \<le> a" "a \<le> b"
  shows "(a / 2) ^ 2 \<le> (b / 2) ^ 2"
  using assms by (intro power_mono) simp_all

lemma width_update_mono:
  assumes "i < length ds"
    and "tolerancePlus (ds ! i) + toleranceMinus (ds ! i) \<le> tolerancePlus e + toleranceMinus e"
  shows "worstCaseMax (results ds) - worstCaseMin (results ds)
      \<le> worstCaseMax (results (ds[i := e])) - worstCaseMin (results (ds[i := e]))"
  unfolding results_width using assms by (simp add: sum_list_map_update)

lemma rssTol_update_mono:
  assumes "i < length ds"
    and "0 \<le> tolerancePlus (ds ! i) + toleranceMinus (ds ! i)"
    and "tolerancePlus (ds ! i) + toleranceMinus (ds ! i) \<le> tolerancePlus e + toleranceMinus e"
  shows "rssTol ds \<le> rssTol (ds[i := e])"
proof -
  have "((tolerancePlus (ds ! i) + toleranceMinus (ds ! i)) / 2) ^ 2
      \<le> ((tolerancePlus e + toleranceMinus e) / 2) ^ 2"
    using assms(2,3) by (rule square_mono_nonneg)
  then show ?thesis
    unfolding rssTol_spec spec_rssTolerance_def real_sqrt_le_iff
    using assms(1) by (simp add: sum_list_map_update)
qed

text \<open>
  Claim C4, as amended. Replacing the \<^verbatim>\<open>tolerancePlus\<close> (or the \<^verbatim>\<open>toleranceMinus\<close>) of
  one dimension of the list by a strictly larger value, everything else unchanged, never
  decreases the width \<open>worstCaseMax - worstCaseMin\<close> of the worst-case band; and when
  the two tolerances of that dimension sum to a non-negative value before the change
  (as they do when both are non-negative), it never decreases the RSS tolerance, nor
  the width \<open>rssMax - rssMin\<close> of the RSS band.
\<close>

theorem C4_tolerance_monotone:
  assumes "i < length ds"
    and "(e = (ds ! i)\<lparr>tolerancePlus := v\<rparr> \<and> tolerancePlus (ds ! i) < v)
         \<or> (e = (ds ! i)\<lparr>toleranceMinus := v\<rparr> \<and> toleranceMinus (ds ! i) < v)"
  shows "worstCaseMax (results ds) - worstCaseMin (results ds)
           \<le> worstCaseMax (results (ds[i := e])) - worstCaseMin (results (ds[i := e]))
         \<and> (0 \<le> tolerancePlus (ds ! i) + toleranceMinus (ds ! i) \<longrightarrow>
              rssTol ds \<le> rssTol (ds[i := e])
              \<and> rssMax (results ds) - rssMin (results ds)
                  \<le> rssMax (results (ds[i := e])) - rssMin (results (ds[i := e])))"
proof -
  from assms(2)
  have le: "tolerancePlus (ds ! i) + toleranceMinus (ds ! i) \<le> tolerancePlus e + toleranceMinus e"
    by auto
  have "rssTol ds \<le> rssTol (ds[i := e])"
    if "0 \<le> tolerancePlus (ds ! i) + toleranceMinus (ds ! i)"
    using assms(1) that le by (rule rssTol_update_mono)
  then show ?thesis
    using width_update_mono [OF assms(1) le] by (simp add: results_rss_band)
qed

theorem C4_tolerance_monotone_witness:
  "(0::nat) < length INITIAL_DIMENSIONS
   \<and> tolerancePlus (INITIAL_DIMENSIONS ! 0) < 0.5
   \<and> 0 \<le> tolerancePlus (INITIAL_DIMENSIONS ! 0) + toleranceMinus (INITIAL_DIMENSIONS ! 0)
   \<and> worstCaseMax (results INITIAL_DIMENSIONS) - worstCaseMin (results INITIAL_DIMENSIONS)
       \<le> worstCaseMax (results (INITIAL_DIMENSIONS[0 := (INITIAL_DIMENSIONS ! 0)\<lparr>tolerancePlus := 0.5\<rparr>]))
         - worstCaseMin (results (INITIAL_DIMENSIONS[0 := (INITIAL_DIMENSIONS ! 0)\<lparr>tolerancePlus := 0.5\<rparr>]))
   \<and> rssTol INITIAL_DIMENSIONS
       \<le> rssTol (INITIAL_DIMENSIONS[0 := (INITIAL_DIMENSIONS ! 0)\<lparr>tolerancePlus := 0.5\<rparr>])
   \<and> rssMax (results INITIAL_DIMENSIONS) - rssMin (results INITIAL_DIMENSIONS)
       \<le> rssMax (results (INITIAL_DIMENSIONS[0 := (INITIAL_DIMENSIONS ! 0)\<lparr>tolerancePlus := 0.5\<rparr>]))
         - rssMin (results (INITIAL_DIMENSIONS[0 := (INITIAL_DIMENSIONS ! 0)\<lparr>tolerancePlus := 0.5\<rparr>]))"
proof -
  have len: "0 < length INITIAL_DIMENSIONS"
    by (simp add: INITIAL_DIMENSIONS_def)
  have lt: "tolerancePlus (INITIAL_DIMENSIONS ! 0) < 0.5"
    by (simp add: INITIAL_DIMENSIONS_def)
  have nonneg: "0 \<le> tolerancePlus (INITIAL_DIMENSIONS ! 0) + toleranceMinus (INITIAL_DIMENSIONS ! 0)"
    by (simp add: INITIAL_DIMENSIONS_def)
  from lt have pre: "((INITIAL_DIMENSIONS ! 0)\<lparr>tolerancePlus := 0.5\<rparr>
        = (INITIAL_DIMENSIONS ! 0)\<lparr>tolerancePlus := 0.5\<rparr>
        \<and> tolerancePlus (INITIAL_DIMENSIONS ! 0) < 0.5)
      \<or> ((INITIAL_DIMENSIONS ! 0)\<lparr>tolerancePlus := 0.5\<rparr>
        = (INITIAL_DIMENSIONS ! 0)\<lparr>toleranceMinus := 0.5\<rparr>
        \<and> toleranceMinus (INITIAL_DIMENSIONS ! 0) < 0.5)"
    by simp
  from C4_tolerance_monotone [OF len pre] len lt nonneg show ?thesis
    by blast
qed

text \<open>
  The claim as the specification states it fails for the RSS tolerance: raising the
  \<^verbatim>\<open>tolerancePlus\<close> of a single dimension from -2 to -1 (with \<^verbatim>\<open>toleranceMinus = 0\<close>)
  lowers the RSS tolerance from 1 to 1/2.
\<close>

theorem C4_negative_tolerance_counterexample:
  "tolerancePlus \<lparr>ident = ''1'', name = ''Shim'', Dimension.nominal = 10,
       tolerancePlus = - 2, toleranceMinus = 0, type = INCREASING, description = None\<rparr> < - 1
   \<and> rssTol [\<lparr>ident = ''1'', name = ''Shim'', Dimension.nominal = 10,
       tolerancePlus = - 1, toleranceMinus = 0, type = INCREASING, description = None\<rparr>]
     < rssTol [\<lparr>ident = ''1'', name = ''Shim'', Dimension.nominal = 10,
       tolerancePlus = - 2, toleranceMinus = 0, type = INCREASING, description = None\<rparr>]"
  by (simp add: rssTol_def)

subsection \<open>Range of the interference probability\<close>

lemma tail_poly_bounds:
  fixes t :: real
  assumes "0 \<le> t" "t \<le> 1"
  defines "q \<equiv> 0.3193815 + t * (- 0.3565638 + t * (1.781478 + t * (- 1.821256 + t * 1.330274)))"
  shows "0 \<le> q" and "q \<le> 2.2"
proof -
  define u where "u = t * t"
  define B where "B = 1.781478 - 1.821256 * t + 1.330274 * u"
  have q_eq: "q = 0.3193815 - 0.3565638 * t + u * B"
    by (simp add: q_def u_def B_def algebra_simps)
  have u0: "0 \<le> u"
    by (simp add: u_def)
  have ut: "u \<le> t"
    using assms(1,2) mult_left_mono [of t 1 t] by (simp add: u_def)
  have "0 \<le> (t - 0.7) ^ 2"
    by simp
  then have u1: "1.4 * t - 0.49 \<le> u"
    by (simp add: u_def power2_eq_square algebra_simps)
  have "0 \<le> (t - 0.16) ^ 2"
    by simp
  then have u2: "0.32 * t - 0.0256 \<le> u"
    by (simp add: u_def power2_eq_square algebra_simps)
  have B_lo: "1.12 \<le> B"
    using u1 assms(1) by (simp add: B_def)
  have B_hi: "B \<le> 1.781478"
    using ut assms(1) by (simp add: B_def)
  have "u * 1.12 \<le> u * B"
    using B_lo u0 by (rule mult_left_mono)
  then show "0 \<le> q"
    using u2 assms(1) by (simp add: q_eq)
  have "u * B \<le> 1 * 1.781478"
    using ut assms(2) B_hi u0 B_lo by (intro mult_mono) simp_all
  then show "q \<le> 2.2"
    using assms(1) by (simp add: q_eq)
qed

lemma normalTail_range: "0 \<le> normalTail z \<and> normalTail z \<le> 100"
proof -
  define t where "t = 1 / (1 + 0.2316419 * \<bar>z\<bar>)"
  define d where "d = 0.3989423 * exp (- z * z / 2)"
  define q where "q = 0.3193815 + t * (- 0.3565638 + t * (1.781478 + t * (- 1.821256 + t * 1.330274)))"
  define p where "p = d * t * q"
  have tail: "normalTail z = (if z > 0 then 1 - p else p) * 100"
    by (simp add: normalTail_def Let_def p_def q_def d_def t_def)
  have t0: "0 \<le> t" by (simp add: t_def)
  have t1: "t \<le> 1" by (simp add: t_def)
  have q0: "0 \<le> q" and q2: "q \<le> 2.2"
    unfolding q_def using t0 t1 by (rule tail_poly_bounds)+
  have "- z * z / 2 \<le> 0" by simp
  then have "exp (- z * z / 2) \<le> 1"
    by (simp only: exp_le_one_iff)
  then have d1: "d \<le> 0.3989423" by (simp add: d_def)
  have d0: "0 \<le> d" by (simp add: d_def)
  have p0: "0 \<le> p"
    unfolding p_def using d0 t0 q0 by (intro mult_nonneg_nonneg)
  have dt: "d * t \<le> 0.3989423 * 1"
    by (rule mult_mono [OF d1 t1 _ t0]) simp
  have "d * t * q \<le> 0.3989423 * 1 * 2.2"
    by (rule mult_mono [OF dt q2 _ q0]) simp
  then have p1: "p \<le> 1" by (simp add: p_def)
  show ?thesis
    unfolding tail using p0 p1 by simp
qed

text \<open>
  Claim C10. For every list of dimensions (empty lists, negative nominals and negative
  tolerances included) the interference probability of the result lies in the closed
  interval from 0 to 100: the tail approximation times 100 is never negative and never
  above 100, and the zero-sigma branch yields 0.
\<close>

theorem C10_probability_range:
  "0 \<le> interferenceProb (results ds) \<and> interferenceProb (results ds) \<le> 100"
  using normalTail_range [of "zScore (sumIncNom (foldl forEach_body sums0 ds)
      - sumDecNom (foldl forEach_body sums0 ds)) (rssTol ds / 3)"]
  by (simp add: results_def Let_def)

section \<open>Properties of the hole fit\<close>

subsection \<open>The fields of the analysis\<close>

lemma analysis_pinMMC: "pinMMC (analysis m p h1 h2 dv u) = PartDimension.nominal p + tolPlus p"
  by (simp add: analysis_def Let_def)

lemma analysis_h1MMC: "h1MMC (analysis m p h1 h2 dv u) = PartDimension.nominal h1 - tolMinus h1"
  by (simp add: analysis_def Let_def)

lemma analysis_floating_maxTP:
  "maxAllowableTP (analysis FLOATING p h1 h2 dv u) =
     min ((PartDimension.nominal h1 - tolMinus h1) - (PartDimension.nominal p + tolPlus p))
         ((PartDimension.nominal h2 - tolMinus h2) - (PartDimension.nominal p + tolPlus p))"
  by (simp add: analysis_def Let_def)

lemma analysis_floating_status:
  "status (analysis FLOATING p h1 h2 dv u) =
     (if tpSpec h1 > (PartDimension.nominal h1 - tolMinus h1) - (PartDimension.nominal p + tolPlus p)
        \<or> tpSpec h2 > (PartDimension.nominal h2 - tolMinus h2) - (PartDimension.nominal p + tolPlus p)
      then FAIL else SAFE)"
  by (simp add: analysis_def Let_def)

lemma analysis_fixed_maxTP:
  "maxAllowableTP (analysis FIXED p h1 h2 dv u) =
     ((PartDimension.nominal h1 - tolMinus h1) - (PartDimension.nominal p + tolPlus p)) / 2"
  by (simp add: analysis_def Let_def)

lemma analysis_fixed_status:
  "status (analysis FIXED p h1 h2 dv u) =
     (if tpSpec h1 + tpSpec h2 > (PartDimension.nominal h1 - tolMinus h1) - (PartDimension.nominal p + tolPlus p)
      then FAIL else SAFE)"
  by (simp add: analysis_def Let_def)

lemma analysis_actualOffset:
  "actualOffset (analysis m p h1 h2 dv u) = sqrt (dev_x dv ^ 2 + dev_y dv ^ 2)"
  by (simp add: analysis_def Let_def)

lemma analysis_actualTP:
  "actualTP (analysis m p h1 h2 dv u) = 2 * sqrt (dev_x dv ^ 2 + dev_y dv ^ 2)"
  by (simp add: analysis_def Let_def)

lemma analysis_radialClearance:
  "radialClearance (analysis m p h1 h2 dv u) =
     ((PartDimension.nominal h1 - tolMinus h1) - (PartDimension.nominal p + tolPlus p)) / 2"
  by (simp add: analysis_def Let_def)

lemma analysis_isSimulationInterference:
  "isSimulationInterference (analysis m p h1 h2 dv u) =
     (sqrt (dev_x dv ^ 2 + dev_y dv ^ 2)
        > ((PartDimension.nominal h1 - tolMinus h1) - (PartDimension.nominal p + tolPlus p)) / 2)"
  by (simp add: analysis_def Let_def)

subsection \<open>Floating fastener\<close>

text \<open>
  Claim C5. In FLOATING mode the reported maximum allowable position tolerance is
  \<open>min c1 c2\<close>, where \<open>ci = (hole_i.nominal - hole_i.tolMinus) - (pin.nominal + pin.tolPlus)\<close>;
  the status is FAIL exactly when the position tolerance of hole 1 exceeds \<open>c1\<close> or
  that of hole 2 exceeds \<open>c2\<close> (each hole against its own clearance), and SAFE
  otherwise. For the M6 scenario (pin 6.00 +0/-0.10, both holes 6.60 +0.20/-0 with
  position tolerance 0.50) the analysis gives pin MMC 6, hole-1 MMC 6.6, maximum
  allowable position tolerance 0.6 and status SAFE.
\<close>

theorem C5_floating:
  "maxAllowableTP (analysis FLOATING p h1 h2 dv u) =
     min ((PartDimension.nominal h1 - tolMinus h1) - (PartDimension.nominal p + tolPlus p))
         ((PartDimension.nominal h2 - tolMinus h2) - (PartDimension.nominal p + tolPlus p))
   \<and> (status (analysis FLOATING p h1 h2 dv u) = FAIL) =
       (tpSpec h1 > (PartDimension.nominal h1 - tolMinus h1) - (PartDimension.nominal p + tolPlus p)
        \<or> tpSpec h2 > (PartDimension.nominal h2 - tolMinus h2) - (PartDimension.nominal p + tolPlus p))
   \<and> (status (analysis FLOATING p h1 h2 dv u) = SAFE) =
       (\<not> (tpSpec h1 > (PartDimension.nominal h1 - tolMinus h1) - (PartDimension.nominal p + tolPlus p)
        \<or> tpSpec h2 > (PartDimension.nominal h2 - tolMinus h2) - (PartDimension.nominal p + tolPlus p)))
   \<and> mode m6_float = FLOATING
   \<and> pinMMC (analysis_of m6_float) = 6
   \<and> h1MMC (analysis_of m6_float) = 6.6
   \<and> maxAllowableTP (analysis_of m6_float) = 0.6
   \<and> status (analysis_of m6_float) = SAFE"
proof -
  have "mode m6_float = FLOATING" "pinMMC (analysis_of m6_float) = 6"
    "h1MMC (analysis_of m6_float) = 6.6" "maxAllowableTP (analysis_of m6_float) = 0.6"
    "status (analysis_of m6_float) = SAFE"
    by (simp_all add: analysis_of_def m6_float_def analysis_pinMMC analysis_h1MMC
        analysis_floating_maxTP analysis_floating_status)
  then show ?thesis
    by (simp add: analysis_floating_maxTP analysis_floating_status)
qed

subsection \<open>Fixed fastener\<close>

text \<open>
  Claim C6. In FIXED mode the budget is
  \<open>totalBudget = (hole1.nominal - hole1.tolMinus) - (pin.nominal + pin.tolPlus)\<close>; the
  reported maximum allowable position tolerance is half of it, the status is FAIL
  exactly when the two position tolerances together exceed it and SAFE otherwise, and
  the size and size tolerances of hole 2 do not enter the analysis at all. For the M8
  scenario (pin 8.00 +0/-0.15, hole 1 9.00 +0.25/-0 with 0.40, hole 2 8.00 +0/-0 with
  0.40) the analysis gives pin MMC 8, hole-1 MMC 9, total budget 1 and status SAFE.
\<close>

theorem C6_fixed:
  "maxAllowableTP (analysis FIXED p h1 h2 dv u) =
     ((PartDimension.nominal h1 - tolMinus h1) - (PartDimension.nominal p + tolPlus p)) / 2
   \<and> (status (analysis FIXED p h1 h2 dv u) = FAIL) =
       (tpSpec h1 + tpSpec h2 > (PartDimension.nominal h1 - tolMinus h1) - (PartDimension.nominal p + tolPlus p))
   \<and> (status (analysis FIXED p h1 h2 dv u) = SAFE) =
       (\<not> tpSpec h1 + tpSpec h2 > (PartDimension.nominal h1 - tolMinus h1) - (PartDimension.nominal p + tolPlus p))
   \<and> analysis FIXED p h1 (h2\<lparr>PartDimension.nominal := a, tolPlus := b, tolMinus := c\<rparr>) dv u
       = analysis FIXED p h1 h2 dv u
   \<and> mode m8_fixed = FIXED
   \<and> pinMMC (analysis_of m8_fixed) = 8
   \<and> h1MMC (analysis_of m8_fixed) = 9
   \<and> h1MMC (analysis_of m8_fixed) - pinMMC (analysis_of m8_fixed) = 1
   \<and> maxAllowableTP (analysis_of m8_fixed) = 0.5
   \<and> status (analysis_of m8_fixed) = SAFE"
proof -
  have "mode m8_fixed = FIXED" "pinMMC (analysis_of m8_fixed) = 8"
    "h1MMC (analysis_of m8_fixed) = 9" "maxAllowableTP (analysis_of m8_fixed) = 0.5"
    "status (analysis_of m8_fixed) = SAFE"
    by (simp_all add: analysis_of_def m8_fixed_def analysis_pinMMC analysis_h1MMC
        analysis_fixed_maxTP analysis_fixed_status)
  moreover have "analysis FIXED p h1 (h2\<lparr>PartDimension.nominal := a, tolPlus := b, tolMinus := c\<rparr>) dv u
       = analysis FIXED p h1 h2 dv u"
    by (simp add: analysis_def Let_def)
  ultimately show ?thesis
    by (simp add: analysis_fixed_maxTP analysis_fixed_status)
qed

subsection \<open>Misalignment simulation\<close>

text \<open>
  Claim C7. In both modes the simulation gives: the actual radial offset is
  \<open>sqrt (x\<^sup>2 + y\<^sup>2)\<close>, the actual true-position diameter is twice that, the radial
  clearance is \<open>((hole1.nominal - hole1.tolMinus) - (pin.nominal + pin.tolPlus)) / 2\<close>,
  and interference is flagged exactly when the offset is strictly greater than the
  clearance; when the two are equal, no interference is flagged.
\<close>

theorem C7_misalignment:
  "actualOffset (analysis m p h1 h2 dv u) = sqrt (dev_x dv ^ 2 + dev_y dv ^ 2)
   \<and> actualTP (analysis m p h1 h2 dv u) = 2 * actualOffset (analysis m p h1 h2 dv u)
   \<and> radialClearance (analysis m p h1 h2 dv u) =
        ((PartDimension.nominal h1 - tolMinus h1) - (PartDimension.nominal p + tolPlus p)) / 2
   \<and> isSimulationInterference (analysis m p h1 h2 dv u) =
        (actualOffset (analysis m p h1 h2 dv u) > radialClearance (analysis m p h1 h2 dv u))
   \<and> (actualOffset (analysis m p h1 h2 dv u) = radialClearance (analysis m p h1 h2 dv u)
        \<longrightarrow> \<not> isSimulationInterference (analysis m p h1 h2 dv u))"
  by (simp add: analysis_actualOffset analysis_actualTP analysis_radialClearance
      analysis_isSimulationInterference)

text \<open>
  The boundary case, at an input whose every value and intermediate result is an
  integer (so the doubles of the program compute the same numbers): pin 6 +0/-0,
  hole 16 +0/-0, misalignment (3, 4). The offset and the radial clearance are both 5
  and no interference is flagged.
\<close>

theorem C7_misalignment_witness:
  "actualOffset (analysis FLOATING
       \<lparr>nominal = 6, tolPlus = 0, tolMinus = 0, tpSpec = 0\<rparr>
       \<lparr>nominal = 16, tolPlus = 0, tolMinus = 0, tpSpec = 0\<rparr>
       \<lparr>nominal = 16, tolPlus = 0, tolMinus = 0, tpSpec = 0\<rparr>
       \<lparr>dev_x = 3, dev_y = 4\<rparr> MM) = 5
   \<and> actualTP (analysis FLOATING
       \<lparr>nominal = 6, tolPlus = 0, tolMinus = 0, tpSpec = 0\<rparr>
       \<lparr>nominal = 16, tolPlus = 0, tolMinus = 0, tpSpec = 0\<rparr>
       \<lparr>nominal = 16, tolPlus = 0, tolMinus = 0, tpSpec = 0\<rparr>
       \<lparr>dev_x = 3, dev_y = 4\<rparr> MM) = 10
   \<and> radialClearance (analysis FLOATING
       \<lparr>nominal = 6, tolPlus = 0, tolMinus = 0, tpSpec = 0\<rparr>
       \<lparr>nominal = 16, tolPlus = 0, tolMinus = 0, tpSpec = 0\<rparr>
       \<lparr>nominal = 16, tolPlus = 0, tolMinus = 0, tpSpec = 0\<rparr>
       \<lparr>dev_x = 3, dev_y = 4\<rparr> MM) = 5
   \<and> \<not> isSimulationInterference (analysis FLOATING
       \<lparr>nominal = 6, tolPlus = 0, tolMinus = 0, tpSpec = 0\<rparr>
       \<lparr>nominal = 16, tolPlus = 0, tolMinus = 0, tpSpec = 0\<rparr>
       \<lparr>nominal = 16, tolPlus = 0, tolMinus = 0, tpSpec = 0\<rparr>
       \<lparr>dev_x = 3, dev_y = 4\<rparr> MM)"
proof -
  have "sqrt ((5::real) ^ 2) = 5"
    by simp
  then have five: "sqrt ((3::real) ^ 2 + 4 ^ 2) = 5"
    by simp
  from C7_misalignment [of FLOATING
      "\<lparr>nominal = 6, tolPlus = 0, tolMinus = 0, tpSpec = 0\<rparr>"
      "\<lparr>nominal = 16, tolPlus = 0, tolMinus = 0, tpSpec = 0\<rparr>"
      "\<lparr>nominal = 16, tolPlus = 0, tolMinus = 0, tpSpec = 0\<rparr>"
      "\<lparr>dev_x = 3, dev_y = 4\<rparr>" MM] five
  show ?thesis by simp
qed

text \<open>
  Claim C8. The simulation outputs depend on the pin, on the nominal and the minus
  tolerance of hole 1, and on the misalignment vector only: two inputs that agree on
  these, and differ arbitrarily in the assembly mode, in hole 2, in the position
  tolerances (and in the plus tolerance of hole 1 and the unit), have the same actual
  radial offset, true-position diameter, radial clearance and interference flag.
\<close>

theorem C8_simulation_noninterference:
  assumes "PartDimension.nominal h1' = PartDimension.nominal h1" and "tolMinus h1' = tolMinus h1"
  shows "actualOffset (analysis m p h1 h2 dv u) = actualOffset (analysis m' p h1' h2' dv u')
    \<and> actualTP (analysis m p h1 h2 dv u) = actualTP (analysis m' p h1' h2' dv u')
    \<and> radialClearance (analysis m p h1 h2 dv u) = radialClearance (analysis m' p h1' h2' dv u')
    \<and> isSimulationInterference (analysis m p h1 h2 dv u)
        = isSimulationInterference (analysis m' p h1' h2' dv u')"
  using assms
  by (simp add: analysis_actualOffset analysis_actualTP analysis_radialClearance
      analysis_isSimulationInterference)

theorem C8_simulation_noninterference_witness:
  "PartDimension.nominal (hole1 m6_float\<lparr>tpSpec := 5\<rparr>) = PartDimension.nominal (hole1 m6_float)
   \<and> tolMinus (hole1 m6_float\<lparr>tpSpec := 5\<rparr>) = tolMinus (hole1 m6_float)
   \<and> status (analysis FLOATING (pin m6_float) (hole1 m6_float) (hole2 m6_float) \<lparr>dev_x = 0.3, dev_y = 0.4\<rparr> MM) = SAFE
   \<and> status (analysis FIXED (pin m6_float) (hole1 m6_float\<lparr>tpSpec := 5\<rparr>) (hole2 m8_fixed) \<lparr>dev_x = 0.3, dev_y = 0.4\<rparr> INCH) = FAIL
   \<and> actualOffset (analysis FLOATING (pin m6_float) (hole1 m6_float) (hole2 m6_float) \<lparr>dev_x = 0.3, dev_y = 0.4\<rparr> MM)
      = actualOffset (analysis FIXED (pin m6_float) (hole1 m6_float\<lparr>tpSpec := 5\<rparr>) (hole2 m8_fixed) \<lparr>dev_x = 0.3, dev_y = 0.4\<rparr> INCH)
   \<and> actualTP (analysis FLOATING (pin m6_float) (hole1 m6_float) (hole2 m6_float) \<lparr>dev_x = 0.3, dev_y = 0.4\<rparr> MM)
      = actualTP (analysis FIXED (pin m6_float) (hole1 m6_float\<lparr>tpSpec := 5\<rparr>) (hole2 m8_fixed) \<lparr>dev_x = 0.3, dev_y = 0.4\<rparr> INCH)
   \<and> radialClearance (analysis FLOATING (pin m6_float) (hole1 m6_float) (hole2 m6_float) \<lparr>dev_x = 0.3, dev_y = 0.4\<rparr> MM)
      = radialClearance (analysis FIXED (pin m6_float) (hole1 m6_float\<lparr>tpSpec := 5\<rparr>) (hole2 m8_fixed) \<lparr>dev_x = 0.3, dev_y = 0.4\<rparr> INCH)
   \<and> isSimulationInterference (analysis FLOATING (pin m6_float) (hole1 m6_float) (hole2 m6_float) \<lparr>dev_x = 0.3, dev_y = 0.4\<rparr> MM)
      = isSimulationInterference (analysis FIXED (pin m6_float) (hole1 m6_float\<lparr>tpSpec := 5\<rparr>) (hole2 m8_fixed) \<lparr>dev_x = 0.3, dev_y = 0.4\<rparr> INCH)"
proof -
  have n: "PartDimension.nominal (hole1 m6_float\<lparr>tpSpec := 5\<rparr>) = PartDimension.nominal (hole1 m6_float)"
    and t: "tolMinus (hole1 m6_float\<lparr>tpSpec := 5\<rparr>) = tolMinus (hole1 m6_float)"
    by simp_all
  have s: "status (analysis FLOATING (pin m6_float) (hole1 m6_float) (hole2 m6_float) \<lparr>dev_x = 0.3, dev_y = 0.4\<rparr> MM) = SAFE"
    "status (analysis FIXED (pin m6_float) (hole1 m6_float\<lparr>tpSpec := 5\<rparr>) (hole2 m8_fixed) \<lparr>dev_x = 0.3, dev_y = 0.4\<rparr> INCH) = FAIL"
    by (simp_all add: analysis_floating_status analysis_fixed_status m6_float_def m8_fixed_def)
  from C8_simulation_noninterference [OF n t, of FLOATING "pin m6_float" "hole2 m6_float"
      "\<lparr>dev_x = 0.3, dev_y = 0.4\<rparr>" MM FIXED "hole2 m8_fixed" INCH] n t s
  show ?thesis by simp
qed

subsection \<open>Unit conversion\<close>

lemma real_nat_floor_half:
  fixes a :: real
  assumes "0 \<le> a"
  shows "real (nat \<lfloor>a + 1 / 2\<rfloor>) = of_int (round a)"
proof -
  from assms have "0 \<le> a + 1 / 2" by simp
  then have "0 \<le> \<lfloor>a + 1 / 2\<rfloor>" by (simp only: zero_le_floor)
  then show ?thesis by (simp add: round_def)
qed

lemma parseFloat_toFixed: "parseFloat (toFixed x f) = round_places f x"
proof (cases "x < 0")
  case True
  then have "0 \<le> (- x) * 10 ^ f"
    by (intro mult_nonneg_nonneg) simp_all
  then have *: "real (nat \<lfloor>(- x) * 10 ^ f + 1 / 2\<rfloor>) = of_int (round ((- x) * 10 ^ f))"
    by (rule real_nat_floor_half)
  have "parseFloat (toFixed x f) = - (real (nat \<lfloor>(- x) * 10 ^ f + 1 / 2\<rfloor>) / 10 ^ f)"
    using True by (simp add: toFixed_def Let_def)
  also have "\<dots> = - (of_int (round ((- x) * 10 ^ f)) / 10 ^ f)"
    by (simp only: *)
  also have "\<dots> = round_places f x"
    using True by (simp add: round_places_def)
  finally show ?thesis .
next
  case False
  then have "0 \<le> x * 10 ^ f"
    by (intro mult_nonneg_nonneg) simp_all
  then have *: "real (nat \<lfloor>x * 10 ^ f + 1 / 2\<rfloor>) = of_int (round (x * 10 ^ f))"
    by (rule real_nat_floor_half)
  have "parseFloat (toFixed x f) = real (nat \<lfloor>x * 10 ^ f + 1 / 2\<rfloor>) / 10 ^ f"
    using False by (simp add: toFixed_def Let_def)
  also have "\<dots> = of_int (round (x * 10 ^ f)) / 10 ^ f"
    by (simp only: *)
  also have "\<dots> = round_places f x"
  proof (cases "x = 0")
    case True
    then show ?thesis by (simp add: round_places_def)
  next
    case nz: False
    with False have "0 < x" by simp
    then show ?thesis by (simp add: round_places_def)
  qed
  finally show ?thesis .
qed

lemma round_places_near: "\<bar>round_places k x - x\<bar> \<le> 1 / (2 * 10 ^ k)"
proof (cases "x = 0")
  case True
  then show ?thesis by (simp add: round_places_def)
next
  case False
  define A :: real where "A = of_int (round (\<bar>x\<bar> * 10 ^ k))"
  have "\<bar>A - \<bar>x\<bar> * 10 ^ k\<bar> \<le> 1 / 2"
    unfolding A_def by (rule of_int_round_abs_le)
  then have "\<bar>A - \<bar>x\<bar> * 10 ^ k\<bar> / 10 ^ k \<le> 1 / 2 / 10 ^ k"
    by (rule divide_right_mono) simp
  moreover have "\<bar>A - \<bar>x\<bar> * 10 ^ k\<bar> / 10 ^ k = \<bar>A / 10 ^ k - \<bar>x\<bar>\<bar>"
  proof -
    have "\<bar>A - \<bar>x\<bar> * 10 ^ k\<bar> / 10 ^ k = \<bar>(A - \<bar>x\<bar> * 10 ^ k) / 10 ^ k\<bar>"
      by simp
    also have "(A - \<bar>x\<bar> * 10 ^ k) / 10 ^ k = A / 10 ^ k - \<bar>x\<bar>"
      by (simp add: diff_divide_distrib)
    finally show ?thesis .
  qed
  moreover have "\<bar>round_places k x - x\<bar> = \<bar>A / 10 ^ k - \<bar>x\<bar>\<bar>"
  proof -
    have "round_places k x - x = sgn x * (A / 10 ^ k) - sgn x * \<bar>x\<bar>"
      unfolding round_places_def mult_sgn_abs A_def by simp
    also have "\<dots> = sgn x * (A / 10 ^ k - \<bar>x\<bar>)"
      by (simp only: right_diff_distrib)
    finally have "\<bar>round_places k x - x\<bar> = \<bar>sgn x\<bar> * \<bar>A / 10 ^ k - \<bar>x\<bar>\<bar>"
      by (simp only: abs_mult)
    with False show ?thesis by (simp add: abs_sgn_eq)
  qed
  ultimately show ?thesis by simp
qed

lemma cvt_INCH: "cvt INCH v = round_places 4 (v / 25.4)"
  by (simp add: cvt_def Let_def parseFloat_toFixed)

lemma cvt_MM: "cvt MM v = round_places 3 (v * 25.4)"
  by (simp add: cvt_def Let_def parseFloat_toFixed)

lemma cvt_INCH_1: "cvt INCH 1 = 0.0394"
  by (simp add: cvt_def Let_def toFixed_def)

lemma cvt_MM_394: "cvt MM 0.0394 = 1.001"
  by (simp add: cvt_def Let_def toFixed_def)

lemma toggle_twice_pin:
  "PartDimension.nominal (pin (handleToggleUnit (handleToggleUnit m6_float))) = 5.999"
  by (simp add: handleToggleUnit_def cvtPart_def m6_float_def Let_def cvt_def toFixed_def)

text \<open>
  Claim C9. The conversion maps a value \<open>v\<close> to \<open>v / 25.4\<close> rounded to 4 decimal
  places when the target is inch, and to \<open>v * 25.4\<close> rounded to 3 decimal places when
  the target is millimetre (so the result is within half a unit of the last place of
  the exact quotient or product). The round trip is lossy: 1 mm becomes 0.0394 inch
  and comes back as 1.001 mm, so there is a value that millimetre to inch to
  millimetre does not reproduce; toggling the unit of the M6 scenario twice turns the
  pin's nominal 6 into 5.999.
\<close>

theorem C9_unit_conversion:
  "cvt INCH v = round_places 4 (v / 25.4)
   \<and> cvt MM v = round_places 3 (v * 25.4)
   \<and> \<bar>cvt INCH v - v / 25.4\<bar> \<le> 0.00005
   \<and> \<bar>cvt MM v - v * 25.4\<bar> \<le> 0.0005
   \<and> cvt INCH 1 = 0.0394
   \<and> cvt MM (cvt INCH 1) = 1.001
   \<and> (\<exists>w. cvt MM (cvt INCH w) \<noteq> w)
   \<and> unit m6_float = MM
   \<and> unit (handleToggleUnit (handleToggleUnit m6_float)) = MM
   \<and> PartDimension.nominal (pin m6_float) = 6
   \<and> PartDimension.nominal (pin (handleToggleUnit (handleToggleUnit m6_float))) = 5.999"
proof -
  have a: "\<bar>cvt INCH v - v / 25.4\<bar> \<le> 0.00005"
    unfolding cvt_INCH using round_places_near [of 4 "v / 25.4"] by simp
  have b: "\<bar>cvt MM v - v * 25.4\<bar> \<le> 0.0005"
    unfolding cvt_MM using round_places_near [of 3 "v * 25.4"] by simp
  have c: "cvt MM (cvt INCH 1) = 1.001"
    by (simp only: cvt_INCH_1 cvt_MM_394)
  then have "cvt MM (cvt INCH 1) \<noteq> 1" by simp
  then have d: "\<exists>w. cvt MM (cvt INCH w) \<noteq> w" by (rule exI)
  have e: "unit m6_float = MM" "unit (handleToggleUnit (handleToggleUnit m6_float)) = MM"
    "PartDimension.nominal (pin m6_float) = 6"
    by (simp_all add: handleToggleUnit_def m6_float_def Let_def)
  show ?thesis
    by (intro conjI cvt_INCH cvt_MM a b cvt_INCH_1 c d e toggle_twice_pin)
qed


end
